theory Spec2Isabelle
  imports Complex_Main "HOL-Library.AList"
begin

section \<open>Workflow state (agents/state.py)\<close>

text \<open>
  A job is a Python \<open>Dict\<close>: a list of key/value pairs, read with \<open>job.get(key)\<close>.
  Python floats are modelled as reals and \<open>datetime\<close> values as integers (seconds).
  Every read of the clock within one call returns the same value \<open>utcnow\<close>.
\<close>

type_synonym job = "(string \<times> string) list"

definition job_get :: "job \<Rightarrow> string \<Rightarrow> string option" where
  "job_get j k = map_of j k"

record preferences =
  pref_keywords :: "string list"
  pref_location :: string
  pref_job_type :: string
  pref_experience_level :: string
  pref_agent_status :: "string option"

record error_entry =
  error :: string
  error_timestamp :: int
  step :: string

record decision_entry =
  agent :: string
  decision :: string
  reasoning :: string
  success :: bool
  timestamp :: int

record scraping_stats_entry =
  total_scraped :: nat
  indeed_count :: nat
  linkedin_count :: nat
  glassdoor_count :: nat
  stats_timestamp :: int

record analysis =
  an_scraped_jobs :: nat
  an_matched_jobs :: nat
  match_rate :: real
  errors_count :: nat
  decisions_count :: nat
  workflow_duration :: real
  agent_performance :: "(string \<times> nat \<times> nat \<times> nat) list"
  common_errors :: "string list"
  recommendations :: "string list"

record insights_store =
  workflow_analysis :: "analysis option"

record scraper_adjustment =
  sa_action :: string
  sa_reasoning :: string

record matcher_adjustment =
  ma_action :: string
  new_threshold :: real
  ma_reasoning :: string

record adjustments =
  adj_scraper :: "scraper_adjustment option"
  adj_matcher :: "matcher_adjustment option"
  adj_resume_tailor :: "(string \<times> string) list"
  adj_timestamp :: string

text \<open>
  \<open>JobApplicationState\<close> is a \<open>TypedDict\<close> with \<open>total=False\<close>. An \<open>option\<close> field is
  \<open>None\<close> when the key is absent or holds Python's \<open>None\<close>; list and dictionary fields
  that the code only reads through \<open>state.get(key, [])\<close> or through the helpers below are
  plain lists, the absent key reading as the empty list. \<open>learning_insights\<close> is read by
  subscript, so its absence is kept apart (\<open>None\<close>). \<open>strategy_adjustments = None\<close> is the
  empty dictionary. The keys \<open>approval_request_id\<close>, \<open>approval_sent_at\<close>,
  \<open>user_feedback\<close>, \<open>application_id\<close>, \<open>application_result\<close> and \<open>feedback_loop_id\<close>
  are neither read nor written by any agent and are left out.
\<close>

record state =
  user_id :: string
  user_preferences :: preferences
  current_step :: "string option"
  workflow_start_time :: "int option"
  errors :: "error_entry list"
  scraped_jobs :: "job list"
  scraping_stats :: "scraping_stats_entry option"
  matched_jobs :: "job list"
  matching_scores :: "(string option \<times> real) list"
  matching_reasoning :: "(string option \<times> string) list"
  current_job :: "job option"
  current_job_id :: "string option"
  base_resume :: "string option"
  tailored_resume :: "string option"
  resume_changes :: "string list option"
  tailoring_reasoning :: "string option"
  approval_status :: "string option"
  application_status :: "string option"
  learning_insights :: "insights_store option"
  strategy_adjustments :: "adjustments option"
  agent_decisions :: "decision_entry list"
  metrics :: "(string \<times> real) list"
  next_action :: "string option"

text \<open>
  What a call reads from outside the state: the clock, the two language-model pipelines
  (prompt, model call and parsing of the answer; \<open>Inl msg\<close> is an exception raised by
  any of the three) and Python's rendering of a float, a date and a list as text.
\<close>

record env =
  utcnow :: int
  score_llm :: "job \<Rightarrow> preferences \<Rightarrow> string + (real \<times> string)"
  tailor_llm :: "string \<Rightarrow> job \<Rightarrow> preferences \<Rightarrow> string + (string \<times> string list \<times> string)"
  float_str :: "real \<Rightarrow> string"
  isoformat :: "int \<Rightarrow> string"
  list_str :: "string list \<Rightarrow> string"

definition create_initial_state :: "env \<Rightarrow> string \<Rightarrow> preferences \<Rightarrow> state" where
  "create_initial_state ev uid prefs =
     \<lparr> user_id = uid, user_preferences = prefs, current_step = Some ''scrape'',
       workflow_start_time = Some (utcnow ev), errors = [], scraped_jobs = [],
       scraping_stats = None, matched_jobs = [], matching_scores = [],
       matching_reasoning = [], current_job = None, current_job_id = None,
       base_resume = None, tailored_resume = None, resume_changes = None,
       tailoring_reasoning = None, approval_status = None, application_status = None,
       learning_insights = Some \<lparr> workflow_analysis = None \<rparr>,
       strategy_adjustments = None, agent_decisions = [], metrics = [],
       next_action = Some ''scrape'' \<rparr>"

definition add_agent_decision ::
  "env \<Rightarrow> state \<Rightarrow> string \<Rightarrow> string \<Rightarrow> string \<Rightarrow> bool \<Rightarrow> state" where
  "add_agent_decision ev st a d r ok =
     st\<lparr> agent_decisions := agent_decisions st @
       [\<lparr> agent = a, decision = d, reasoning = r, success = ok, timestamp = utcnow ev \<rparr>] \<rparr>"

definition step_or :: "string \<Rightarrow> state \<Rightarrow> string" where
  "step_or dflt st = (case current_step st of None \<Rightarrow> dflt | Some c \<Rightarrow> c)"

definition add_error :: "env \<Rightarrow> state \<Rightarrow> string \<Rightarrow> state" where
  "add_error ev st msg =
     st\<lparr> errors := errors st @
       [\<lparr> error = msg, error_timestamp = utcnow ev, step = step_or ''unknown'' st \<rparr>] \<rparr>"

definition update_metrics :: "state \<Rightarrow> string \<Rightarrow> real \<Rightarrow> state" where
  "update_metrics st name v = st\<lparr> metrics := AList.update name v (metrics st) \<rparr>"

text \<open>
  \<open>try: body except Exception as e: handler\<close>. A body returns \<open>Inr\<close> its result, or
  \<open>Inl (msg, st)\<close> when an exception with text \<open>msg\<close> is raised, \<open>st\<close> being the state
  as mutated up to that point (the dictionary is updated in place).
\<close>

definition try_except ::
  "(state \<Rightarrow> (string \<times> state) + state) \<Rightarrow> (string \<Rightarrow> state \<Rightarrow> state) \<Rightarrow> state \<Rightarrow> state" where
  "try_except body handler st =
     (case body st of Inr st' \<Rightarrow> st' | Inl (msg, st1) \<Rightarrow> handler msg st1)"

section \<open>Supervisor (agents/supervisor_agent.py)\<close>

text \<open>Python truth values: \<open>None\<close>, the empty dictionary and the empty string are false.\<close>

definition truthy_job :: "job option \<Rightarrow> bool" where
  "truthy_job cj = (case cj of None \<Rightarrow> False | Some j \<Rightarrow> j \<noteq> [])"

definition truthy_str :: "string option \<Rightarrow> bool" where
  "truthy_str s = (case s of None \<Rightarrow> False | Some t \<Rightarrow> t \<noteq> [])"

definition decide_after_scrape :: "state \<Rightarrow> string \<times> state" where
  "decide_after_scrape st =
     (if length (scraped_jobs st) = 0 then (''stop'', st) else (''match'', st))"

definition decide_after_match :: "state \<Rightarrow> string \<times> state" where
  "decide_after_match st =
     (let matched = matched_jobs st in
      if length matched = 0 then (''learn'', st)
      else (''tailor'',
            if \<not> truthy_job (current_job st)
            then st\<lparr> current_job := Some (hd matched),
                     current_job_id := job_get (hd matched) ''id'' \<rparr>
            else st))"

definition decide_after_tailor :: "state \<Rightarrow> string \<times> state" where
  "decide_after_tailor st =
     (if \<not> truthy_str (tailored_resume st) then (''match'', st) else (''approve'', st))"

definition decide_after_approval :: "state \<Rightarrow> string \<times> state" where
  "decide_after_approval st =
     (if approval_status st = Some ''approved'' then (''apply'', st)
      else if approval_status st = Some ''rejected'' then (''learn'', st)
      else if approval_status st = Some ''expired'' then (''match'', st)
      else (''wait'', st))"

definition decide_after_apply :: "state \<Rightarrow> string \<times> state" where
  "decide_after_apply st =
     (let remaining_jobs =
            filter (\<lambda>j. job_get j ''id'' \<noteq> current_job_id st) (matched_jobs st);
          st1 = st\<lparr> matched_jobs := remaining_jobs, current_job := None,
                     current_job_id := None \<rparr>
      in if length remaining_jobs > 0 then (''match'', st1) else (''learn'', st1))"

definition decide_after_learn :: "state \<Rightarrow> string \<times> state" where
  "decide_after_learn st = (''stop'', st)"

text \<open>The \<open>if/elif\<close> chain of \<open>execute\<close> on \<open>current_step\<close> (default \<open>scrape\<close>).\<close>

definition decide :: "state \<Rightarrow> string \<times> state" where
  "decide st =
     (let cur = step_or ''scrape'' st in
      if cur = ''scrape'' then decide_after_scrape st
      else if cur = ''match'' then decide_after_match st
      else if cur = ''tailor'' then decide_after_tailor st
      else if cur = ''approve'' then decide_after_approval st
      else if cur = ''apply'' then decide_after_apply st
      else if cur = ''learn'' then decide_after_learn st
      else (''scrape'', st))"

text \<open>
  The body of \<open>execute\<close>'s \<open>try\<close> block, over a decision logic that may raise, and
  its \<open>except\<close> block.
\<close>

definition supervisor_body ::
  "env \<Rightarrow> (state \<Rightarrow> (string \<times> state) + (string \<times> state)) \<Rightarrow> state
     \<Rightarrow> (string \<times> state) + state" where
  "supervisor_body ev logic st =
     (case logic st of
        Inl raised \<Rightarrow> Inl raised
      | Inr (na, st1) \<Rightarrow>
          Inr (add_agent_decision ev (st1\<lparr> next_action := Some na \<rparr>) ''supervisor''
                 (''next_action='' @ na)
                 (''Based on current_step='' @ step_or ''scrape'' st) True))"

definition supervisor_handler :: "env \<Rightarrow> string \<Rightarrow> state \<Rightarrow> state" where
  "supervisor_handler ev msg st =
     (add_error ev st (''Supervisor error: '' @ msg))\<lparr> next_action := Some ''stop'' \<rparr>"

definition execute_with ::
  "env \<Rightarrow> (state \<Rightarrow> (string \<times> state) + (string \<times> state)) \<Rightarrow> state \<Rightarrow> state" where
  "execute_with ev logic = try_except (supervisor_body ev logic) (supervisor_handler ev)"

text \<open>\<open>SupervisorAgent.execute\<close>: the decision logic of the source never raises on a typed state.\<close>

definition execute :: "env \<Rightarrow> state \<Rightarrow> state" where
  "execute ev = execute_with ev (\<lambda>st. Inr (decide st))"

definition should_continue_workflow :: "state \<Rightarrow> bool" where
  "should_continue_workflow st =
     (if length (errors st) > 10 then False
      else if pref_agent_status (user_preferences st) = Some ''paused'' then False
      else True)"

section \<open>Matcher (agents/matcher_agent.py)\<close>

fun string_of_nat :: "nat \<Rightarrow> string" where
  "string_of_nat n =
     (if n < 10 then [char_of (48 + n)]
      else string_of_nat (n div 10) @ [char_of (48 + n mod 10)])"

text \<open>
  \<open>_calculate_match_score\<close>: a failure of the prompt, the model call or the parsing is
  caught here and becomes the score 0.0; nothing is recorded in \<open>errors\<close>.
\<close>

definition calculate_match_score :: "env \<Rightarrow> job \<Rightarrow> preferences \<Rightarrow> real \<times> string" where
  "calculate_match_score ev j prefs =
     (case score_llm ev j prefs of
        Inr (score, rsn) \<Rightarrow> (score, rsn)
      | Inl msg \<Rightarrow> (0, ''Error: '' @ msg))"

text \<open>The \<open>for job in scraped_jobs\<close> loop, over (matched_jobs, matching_scores, matching_reasoning).\<close>

fun match_loop ::
  "env \<Rightarrow> real \<Rightarrow> preferences \<Rightarrow> job list
     \<Rightarrow> job list \<times> (string option \<times> real) list \<times> (string option \<times> string) list
     \<Rightarrow> job list \<times> (string option \<times> real) list \<times> (string option \<times> string) list" where
  "match_loop ev thr prefs [] acc = acc"
| "match_loop ev thr prefs (j # js) (matched, scores, reasons) =
     (let job_id = job_get j ''id'';
          (score, rsn) = calculate_match_score ev j prefs;
          scores1 = AList.update job_id score scores;
          reasons1 = AList.update job_id rsn reasons
      in match_loop ev thr prefs js
           (if score \<ge> thr then matched @ [j] else matched, scores1, reasons1))"

text \<open>
  \<open>matching_scores[j.get("id")]\<close>. Every job the loop appends to \<open>matched_jobs\<close> has had
  its id stored in \<open>matching_scores\<close>, so the lookup never misses (lemma
  \<open>matched_scores_present\<close> below); the default is never used.
\<close>

definition score_of :: "(string option \<times> real) list \<Rightarrow> job \<Rightarrow> real" where
  "score_of scores j = (case map_of scores (job_get j ''id'') of Some v \<Rightarrow> v | None \<Rightarrow> 0)"

text \<open>
  \<open>list.sort(key=..., reverse=True)\<close>: descending by key, and stable (equal keys keep
  their order): the stable insertion sort on the negated key.
\<close>

definition sort_reverse :: "('a \<Rightarrow> real) \<Rightarrow> 'a list \<Rightarrow> 'a list" where
  "sort_reverse key xs = sort_key (\<lambda>x. - key x) xs"

definition matcher_body :: "env \<Rightarrow> real \<Rightarrow> state \<Rightarrow> (string \<times> state) + state" where
  "matcher_body ev thr st =
     (if scraped_jobs st = [] then Inr (st\<lparr> current_step := Some ''learn'' \<rparr>)
      else
        (case match_loop ev thr (user_preferences st) (scraped_jobs st) ([], [], []) of
           (matched, scores, reasons) \<Rightarrow>
             (let sorted_jobs = sort_reverse (score_of scores) matched;
                  st1 = st\<lparr> matched_jobs := sorted_jobs, matching_scores := scores,
                            matching_reasoning := reasons, current_step := Some ''tailor'' \<rparr>;
                  st2 = add_agent_decision ev st1 ''matcher''
                          (''matched_'' @ string_of_nat (length sorted_jobs) @ ''_of_''
                             @ string_of_nat (length (scraped_jobs st)) @ ''_jobs'')
                          (''Filtered jobs with score >= '' @ float_str ev thr) True;
                  st3 = update_metrics st2 ''jobs_matched'' (real (length sorted_jobs));
                  st4 = update_metrics st3 ''match_rate''
                          (real (length sorted_jobs) / real (length (scraped_jobs st)))
              in Inr st4)))"

definition matcher_handler :: "env \<Rightarrow> string \<Rightarrow> state \<Rightarrow> state" where
  "matcher_handler ev msg st =
     (add_error ev st (''Matcher error: '' @ msg))\<lparr> current_step := Some ''learn'' \<rparr>"

definition matcher_execute :: "env \<Rightarrow> real \<Rightarrow> state \<Rightarrow> state" where
  "matcher_execute ev thr = try_except (matcher_body ev thr) (matcher_handler ev)"

text \<open>
  \<open>adjust_threshold\<close>: the agent's \<open>min_score_threshold\<close> before the call, and after it.
  The sum and the difference are exact here. The source computes them in double
  precision, which rounds each to the nearest double: its result can differ from the
  exact one in the last place (from 0.7 it stores 0.6499999999999999, the double next
  below 0.65). The comparisons and the two clamps are not affected.
\<close>

definition adjust_threshold :: "real \<Rightarrow> state \<Rightarrow> real" where
  "adjust_threshold thr st =
     (let matched_count = length (matched_jobs st) in
      if matched_count = 0 then max 0.5 (thr - 0.05)
      else if matched_count > 20 then min 0.9 (thr + 0.05)
      else thr)"

section \<open>Scraper (agents/scraper_agent.py)\<close>

definition scrape_indeed :: "env \<Rightarrow> string list \<Rightarrow> string \<Rightarrow> string \<Rightarrow> job list" where
  "scrape_indeed ev kws loc jt =
     map (\<lambda>i.
       [(''id'', ''indeed_'' @ string_of_nat i),
        (''title'', ''Software Engineer - '' @ (if kws = [] then ''Python'' else hd kws)),
        (''company'', ''Tech Company '' @ string_of_nat i),
        (''location'', if loc = [] then ''Remote'' else loc),
        (''description'', ''We are looking for a talented software engineer with experience in ''
           @ (if kws = [] then ''Python'' else hd kws) @ ''. Must have 3+ years of experience.''),
        (''salary_range'', ''$80,000 - $120,000''),
        (''job_type'', if jt = [] then ''Full-time'' else jt),
        (''posted_date'', isoformat ev (utcnow ev)),
        (''url'', ''https://www.indeed.com/viewjob?jk=mock'' @ string_of_nat i),
        (''source'', ''indeed''),
        (''scraped_at'', isoformat ev (utcnow ev))]) [1..<6]"

definition scraper_body :: "env \<Rightarrow> state \<Rightarrow> (string \<times> state) + state" where
  "scraper_body ev st =
     (let prefs = user_preferences st;
          indeed_jobs = scrape_indeed ev (pref_keywords prefs) (pref_location prefs)
                          (pref_job_type prefs);
          all_jobs = [] @ indeed_jobs;
          st1 = st\<lparr> scraped_jobs := all_jobs,
                    scraping_stats := Some \<lparr> total_scraped = length all_jobs,
                      indeed_count = length indeed_jobs, linkedin_count = 0,
                      glassdoor_count = 0, stats_timestamp = utcnow ev \<rparr>,
                    current_step := Some ''match'' \<rparr>;
          st2 = add_agent_decision ev st1 ''scraper''
                  (''scraped_'' @ string_of_nat (length all_jobs) @ ''_jobs'')
                  (''Scraped from Indeed using keywords: '' @ list_str ev (pref_keywords prefs))
                  True
      in Inr (update_metrics st2 ''jobs_scraped'' (real (length all_jobs))))"

definition scraper_handler :: "env \<Rightarrow> string \<Rightarrow> state \<Rightarrow> state" where
  "scraper_handler ev msg st =
     (add_error ev st (''Scraper error: '' @ msg))\<lparr> current_step := Some ''match'' \<rparr>"

definition scraper_execute :: "env \<Rightarrow> state \<Rightarrow> state" where
  "scraper_execute ev = try_except (scraper_body ev) (scraper_handler ev)"

section \<open>Resume tailor (agents/resume_tailor_agent.py)\<close>

text \<open>\<open>_tailor_resume\<close>: on a failure the original resume is returned, with no changes.\<close>

definition tailor_resume ::
  "env \<Rightarrow> string \<Rightarrow> job \<Rightarrow> preferences \<Rightarrow> string \<times> string list \<times> string" where
  "tailor_resume ev resume j prefs =
     (case tailor_llm ev resume j prefs of
        Inr r \<Rightarrow> r
      | Inl msg \<Rightarrow> (resume, [], ''Error: '' @ msg))"

definition str_opt :: "string option \<Rightarrow> string" where
  "str_opt v = (case v of None \<Rightarrow> ''None'' | Some s \<Rightarrow> s)"

definition metric_or :: "real \<Rightarrow> (string \<times> real) list \<Rightarrow> string \<Rightarrow> real" where
  "metric_or dflt ms k = (case map_of ms k of None \<Rightarrow> dflt | Some v \<Rightarrow> v)"

definition tailor_body :: "env \<Rightarrow> state \<Rightarrow> (string \<times> state) + state" where
  "tailor_body ev st =
     (case current_job st of
        None \<Rightarrow> Inr (st\<lparr> current_step := Some ''approve'' \<rparr>)
      | Some cj \<Rightarrow>
          if cj = [] then Inr (st\<lparr> current_step := Some ''approve'' \<rparr>)
          else
            (case base_resume st of
               None \<Rightarrow> Inr ((add_error ev st ''No base resume available for tailoring'')
                              \<lparr> current_step := Some ''match'' \<rparr>)
             | Some resume \<Rightarrow>
                 if resume = []
                 then Inr ((add_error ev st ''No base resume available for tailoring'')
                             \<lparr> current_step := Some ''match'' \<rparr>)
                 else
                   (case tailor_resume ev resume cj (user_preferences st) of
                      (tailored, changes, rsn) \<Rightarrow>
                        (let st1 = st\<lparr> tailored_resume := Some tailored,
                                        resume_changes := Some changes,
                                        tailoring_reasoning := Some rsn,
                                        current_step := Some ''approve'' \<rparr>;
                             st2 = add_agent_decision ev st1 ''resume_tailor''
                                     (''tailored_resume_for_'' @ str_opt (job_get cj ''id''))
                                     rsn True
                         in Inr (update_metrics st2 ''resumes_tailored''
                                   (metric_or 0 (metrics st2) ''resumes_tailored'' + 1))))))"

definition tailor_handler :: "env \<Rightarrow> string \<Rightarrow> state \<Rightarrow> state" where
  "tailor_handler ev msg st =
     (add_error ev st (''Resume tailor error: '' @ msg))\<lparr> current_step := Some ''match'' \<rparr>"

definition tailor_execute :: "env \<Rightarrow> state \<Rightarrow> state" where
  "tailor_execute ev = try_except (tailor_body ev) (tailor_handler ev)"

section \<open>Learning (agents/learning_agent.py)\<close>

definition calculate_duration :: "env \<Rightarrow> state \<Rightarrow> real" where
  "calculate_duration ev st =
     (case workflow_start_time st of
        None \<Rightarrow> 0
      | Some start_time \<Rightarrow> real_of_int (utcnow ev - start_time))"

definition analyze_agent_performance :: "state \<Rightarrow> (string \<times> nat \<times> nat \<times> nat) list" where
  "analyze_agent_performance st =
     foldl (\<lambda>agent_stats d.
              (case (case map_of agent_stats (agent d) of
                       None \<Rightarrow> (0, 0, 0) | Some v \<Rightarrow> v) of
                 (tot, succ, failures) \<Rightarrow>
                   AList.update (agent d)
                     (tot + 1, if success d then succ + 1 else succ,
                      if success d then failures else failures + 1) agent_stats))
       [] (agent_decisions st)"

definition identify_common_errors :: "error_entry list \<Rightarrow> string list" where
  "identify_common_errors es =
     (if es = [] then []
      else
        (let error_counts =
               foldl (\<lambda>counts e.
                        AList.update (take 50 (error e))
                          ((case map_of counts (take 50 (error e)) of
                              None \<Rightarrow> 0 | Some c \<Rightarrow> c) + (1::nat)) counts)
                 [] es;
             sorted_errors = sort_reverse (\<lambda>p. real (snd p)) error_counts
         in map fst (take 3 sorted_errors)))"

definition analyze_workflow :: "env \<Rightarrow> state \<Rightarrow> analysis" where
  "analyze_workflow ev st =
     (let scraped_count = length (scraped_jobs st);
          matched_count = length (matched_jobs st);
          rate = (if scraped_count > 0 then real matched_count / real scraped_count else 0);
          recs1 = (if rate < 0.1
                   then [''Match rate is very low. Consider lowering match threshold or adjusting keywords.'']
                   else if rate > 0.8
                   then [''Match rate is very high. Consider raising match threshold to be more selective.'']
                   else []);
          recs2 = (if length (errors st) > 5
                   then recs1 @ [''Multiple errors detected. Review scraping and matching logic.'']
                   else recs1)
      in \<lparr> an_scraped_jobs = scraped_count, an_matched_jobs = matched_count,
           match_rate = rate, errors_count = length (errors st),
           decisions_count = length (agent_decisions st),
           workflow_duration = calculate_duration ev st,
           agent_performance = analyze_agent_performance st,
           common_errors = identify_common_errors (errors st),
           recommendations = recs2 \<rparr>)"

definition generate_strategy_adjustments :: "env \<Rightarrow> state \<Rightarrow> analysis \<Rightarrow> adjustments" where
  "generate_strategy_adjustments ev st insights =
     (let rate = match_rate insights in
      \<lparr> adj_scraper =
          (if rate < 0.1
           then Some \<lparr> sa_action = ''broaden_search'',
                       sa_reasoning = ''Low match rate suggests search is too narrow'' \<rparr>
           else None),
        adj_matcher =
          (if rate > 0.8
           then Some \<lparr> ma_action = ''raise_threshold'', new_threshold = 0.75,
                       ma_reasoning = ''High match rate suggests we can be more selective'' \<rparr>
           else if rate < 0.1
           then Some \<lparr> ma_action = ''lower_threshold'', new_threshold = 0.60,
                       ma_reasoning = ''Low match rate suggests threshold is too strict'' \<rparr>
           else None),
        adj_resume_tailor = [],
        adj_timestamp = isoformat ev (utcnow ev) \<rparr>)"

text \<open>
  \<open>state["learning_insights"]["workflow_analysis"] = insights\<close> raises \<open>KeyError\<close> when the
  state has no \<open>learning_insights\<close> key; the text of that exception is the quoted key.
  The adjustments dictionary always has four keys.
\<close>

definition key_error_text :: "string \<Rightarrow> string" where
  "key_error_text k = [CHR 0x27] @ k @ [CHR 0x27]"

definition learning_body :: "env \<Rightarrow> state \<Rightarrow> (string \<times> state) + state" where
  "learning_body ev st =
     (let insights = analyze_workflow ev st in
      case learning_insights st of
        None \<Rightarrow> Inl (key_error_text ''learning_insights'', st)
      | Some store \<Rightarrow>
          (let st1 = st\<lparr> learning_insights :=
                            Some (store\<lparr> workflow_analysis := Some insights \<rparr>) \<rparr>;
               adj = generate_strategy_adjustments ev st1 insights;
               st2 = st1\<lparr> strategy_adjustments := Some adj,
                          current_step := Some ''complete'' \<rparr>
           in Inr (add_agent_decision ev st2 ''learning'' ''workflow_analysis_complete''
                     (''Generated '' @ string_of_nat 4 @ '' strategy adjustments'') True)))"

definition learning_handler :: "env \<Rightarrow> string \<Rightarrow> state \<Rightarrow> state" where
  "learning_handler ev msg st =
     (add_error ev st (''Learning error: '' @ msg))\<lparr> current_step := Some ''complete'' \<rparr>"

definition learning_execute :: "env \<Rightarrow> state \<Rightarrow> state" where
  "learning_execute ev = try_except (learning_body ev) (learning_handler ev)"

section \<open>Workflow graph (agents/workflow.py)\<close>

datatype node = Scrape | Match | Tailor | Approve | Apply | Learn | Supervisor

datatype target = Goto node | END

datatype run_error = GraphRecursionError | KeyError string

definition entry_point :: node where
  "entry_point = Scrape"

definition approve_node :: "state \<Rightarrow> state" where
  "approve_node st = st\<lparr> approval_status := Some ''pending'', current_step := Some ''wait'' \<rparr>"

definition apply_node :: "state \<Rightarrow> state" where
  "apply_node st = st\<lparr> application_status := Some ''submitted'', current_step := Some ''learn'' \<rparr>"

text \<open>The node functions; \<open>thr\<close> is the matcher's \<open>min_score_threshold\<close>.\<close>

fun run_node :: "env \<Rightarrow> real \<Rightarrow> node \<Rightarrow> state \<Rightarrow> state" where
  "run_node ev thr Scrape st = scraper_execute ev st"
| "run_node ev thr Match st = matcher_execute ev thr st"
| "run_node ev thr Tailor st = tailor_execute ev st"
| "run_node ev thr Approve st = approve_node st"
| "run_node ev thr Apply st = apply_node st"
| "run_node ev thr Learn st = learning_execute ev st"
| "run_node ev thr Supervisor st = execute ev st"

definition route_next_step :: "state \<Rightarrow> string" where
  "route_next_step st = (case next_action st of None \<Rightarrow> ''stop'' | Some a \<Rightarrow> a)"

text \<open>The mapping of the conditional edges leaving the supervisor.\<close>

definition route_target :: "string \<Rightarrow> target option" where
  "route_target a =
     (if a = ''scrape'' then Some (Goto Scrape)
      else if a = ''match'' then Some (Goto Match)
      else if a = ''tailor'' then Some (Goto Tailor)
      else if a = ''approve'' then Some (Goto Approve)
      else if a = ''apply'' then Some (Goto Apply)
      else if a = ''learn'' then Some (Goto Learn)
      else if a = ''stop'' then Some END
      else if a = ''wait'' then Some END
      else None)"

text \<open>
  The compiled graph run from a node: every stage node has an edge to the supervisor,
  the supervisor is followed by the conditional edge. \<open>steps\<close> is the number of node
  executions still allowed; a node that is due when none is left raises.
\<close>

fun ainvoke_from :: "env \<Rightarrow> real \<Rightarrow> nat \<Rightarrow> node \<Rightarrow> state \<Rightarrow> run_error + state" where
  "ainvoke_from ev thr 0 n st = Inl GraphRecursionError"
| "ainvoke_from ev thr (Suc steps) n st =
     (let st1 = run_node ev thr n st in
      if n = Supervisor
      then (case route_target (route_next_step st1) of
              None \<Rightarrow> Inl (KeyError (route_next_step st1))
            | Some END \<Rightarrow> Inr st1
            | Some (Goto m) \<Rightarrow> ainvoke_from ev thr steps m st1)
      else ainvoke_from ev thr steps Supervisor st1)"

text \<open>
  \<open>workflow.ainvoke(state)\<close>: an invocation of the compiled graph starts at its entry
  point. The graph engine is a library outside the repository; \<open>limit\<close> is its
  recursion limit (25 unless configured). The engine counts one step besides the node
  executions, so an invocation that executes \<open>k\<close> nodes returns only under a limit of at
  least \<open>k + 1\<close> and raises under a smaller one.
\<close>

definition ainvoke :: "env \<Rightarrow> real \<Rightarrow> nat \<Rightarrow> state \<Rightarrow> run_error + state" where
  "ainvoke ev thr limit st = ainvoke_from ev thr (limit - 1) entry_point st"

definition run :: "env \<Rightarrow> real \<Rightarrow> nat \<Rightarrow> string \<Rightarrow> preferences \<Rightarrow> run_error + state" where
  "run ev thr limit uid prefs = ainvoke ev thr limit (create_initial_state ev uid prefs)"

definition resume_workflow :: "env \<Rightarrow> real \<Rightarrow> nat \<Rightarrow> state \<Rightarrow> run_error + state" where
  "resume_workflow ev thr limit st = ainvoke ev thr limit st"

section \<open>Frames and example data\<close>

text \<open>
  The state with the fields blanked that the supervisor's decision functions assign:
  two states agree on every other field exactly when their frames are equal.
\<close>

definition router_frame :: "state \<Rightarrow> state" where
  "router_frame st = st\<lparr> next_action := None, agent_decisions := [], current_job := None,
                         current_job_id := None, matched_jobs := [] \<rparr>"

text \<open>An environment in which every language-model call fails (no API key configured).\<close>

definition ex_env :: env where
  "ex_env = \<lparr> utcnow = 100,
              score_llm = (\<lambda>j p. Inl ''no API key''),
              tailor_llm = (\<lambda>r j p. Inl ''no API key''),
              float_str = (\<lambda>x. ''0.7''),
              isoformat = (\<lambda>t. ''2025-01-01T00:00:00''),
              list_str = (\<lambda>ks. ''[]'') \<rparr>"

definition ex_prefs :: preferences where
  "ex_prefs = \<lparr> pref_keywords = [''Python''], pref_location = ''Remote'',
                pref_job_type = ''Full-time'', pref_experience_level = ''Mid-level'',
                pref_agent_status = None \<rparr>"

definition ex_state :: state where
  "ex_state = create_initial_state ex_env ''test-user'' ex_prefs"

definition job_a :: job where
  "job_a = [(''id'', ''a''), (''title'', ''Engineer A'')]"

definition job_b :: job where
  "job_b = [(''id'', ''b''), (''title'', ''Engineer B'')]"

text \<open>A decision logic that raises, whatever the state.\<close>

definition raising_logic :: "state \<Rightarrow> (string \<times> state) + (string \<times> state)" where
  "raising_logic st = Inl (''len() of unsized object'', st)"

text \<open>
  A run waiting at the approval gate for \<open>job_a\<close>, the first of two matched jobs, with
  the given approval status.
\<close>

definition gate_state :: "string \<Rightarrow> state" where
  "gate_state status =
     ex_state\<lparr> current_step := Some ''approve'', scraped_jobs := [job_a, job_b],
               matched_jobs := [job_a, job_b], current_job := Some job_a,
               current_job_id := Some ''a'', base_resume := Some ''resume text'',
               tailored_resume := Some ''tailored text'',
               approval_status := Some status, next_action := Some ''wait'' \<rparr>"

text \<open>A run just after scraping, with two jobs found and eleven errors recorded.\<close>

definition error_state :: state where
  "error_state =
     ex_state\<lparr> scraped_jobs := [job_a, job_b],
               errors := replicate 11 \<lparr> error = ''Scraper error: timeout'',
                           error_timestamp = 100, step = ''scrape'' \<rparr> \<rparr>"

text \<open>A run just after the application for \<open>job_a\<close> was submitted.\<close>

definition apply_state :: state where
  "apply_state = (gate_state ''approved'')\<lparr> current_step := Some ''apply'',
                    application_status := Some ''submitted'' \<rparr>"

text \<open>A run just after matching, two jobs matched and none current yet.\<close>

definition match_state :: state where
  "match_state = ex_state\<lparr> current_step := Some ''match'', scraped_jobs := [job_a, job_b],
                   matched_jobs := [job_a, job_b] \<rparr>"

text \<open>
  The scoring scenario: five scraped jobs \<open>c1\<close> to \<open>c5\<close> for which the language model
  answers 0.9, 0.3, 0.75, 0.6 and 0.1.
\<close>

definition candidate :: "string \<Rightarrow> job" where
  "candidate i = [(''id'', i), (''source'', ''indeed'')]"

definition scenario_scores :: "job \<Rightarrow> preferences \<Rightarrow> string + (real \<times> string)" where
  "scenario_scores j p =
     (if job_get j ''id'' = Some ''c1'' then Inr (0.9, ''strong match'')
      else if job_get j ''id'' = Some ''c2'' then Inr (0.3, ''weak match'')
      else if job_get j ''id'' = Some ''c3'' then Inr (0.75, ''good match'')
      else if job_get j ''id'' = Some ''c4'' then Inr (0.6, ''fair match'')
      else if job_get j ''id'' = Some ''c5'' then Inr (0.1, ''poor match'')
      else Inl ''no answer'')"

definition scenario_env :: env where
  "scenario_env = ex_env\<lparr> score_llm := scenario_scores \<rparr>"

definition scenario_state :: state where
  "scenario_state =
     ex_state\<lparr> current_step := Some ''match'',
               scraped_jobs := map candidate [''c1'', ''c2'', ''c3'', ''c4'', ''c5''] \<rparr>"

text \<open>A state with \<open>items\<close> scraped jobs of which \<open>accepted\<close> are matched.\<close>

definition counted_state :: "nat \<Rightarrow> nat \<Rightarrow> state" where
  "counted_state accepted items =
     ex_state\<lparr> scraped_jobs := replicate items job_a,
               matched_jobs := replicate accepted job_a \<rparr>"

text \<open>One scraped job, about to be scored.\<close>

definition one_job_state :: state where
  "one_job_state = ex_state\<lparr> current_step := Some ''match'', scraped_jobs := [job_a] \<rparr>"

text \<open>A stage body that raises, whatever the state.\<close>

definition raising_body :: "state \<Rightarrow> (string \<times> state) + state" where
  "raising_body st = Inl (''connection reset'', st)"

text \<open>A state about to be analysed that has no \<open>learning_insights\<close> key.\<close>

definition no_insights_state :: state where
  "no_insights_state = ex_state\<lparr> current_step := Some ''learn'', learning_insights := None \<rparr>"

text \<open>
  What is compared between runs: the decision, the step, the agents that logged a
  decision, the number of scraped jobs and the tailored resume.
\<close>

definition digest ::
  "state \<Rightarrow> string option \<times> string option \<times> string list \<times> nat \<times> string option" where
  "digest st = (next_action st, current_step st, map agent (agent_decisions st),
                length (scraped_jobs st), tailored_resume st)"

text \<open>Resuming, and resuming the result again.\<close>

definition resume_twice :: "env \<Rightarrow> real \<Rightarrow> nat \<Rightarrow> state \<Rightarrow> run_error + state" where
  "resume_twice ev thr limit st =
     (case resume_workflow ev thr limit st of
        Inl e \<Rightarrow> Inl e
      | Inr st1 \<Rightarrow> resume_workflow ev thr limit st1)"

section \<open>The supervisor's decisions\<close>

lemmas decide_defs = decide_def decide_after_scrape_def decide_after_match_def
  decide_after_tailor_def decide_after_approval_def decide_after_apply_def
  decide_after_learn_def

lemmas example_defs = ex_state_def create_initial_state_def ex_env_def ex_prefs_def
  gate_state_def error_state_def apply_state_def job_a_def job_b_def

lemma execute_unfold:
  "execute ev st =
     add_agent_decision ev ((snd (decide st))\<lparr> next_action := Some (fst (decide st)) \<rparr>)
       ''supervisor'' (''next_action='' @ fst (decide st))
       (''Based on current_step='' @ step_or ''scrape'' st) True"
  by (simp add: execute_def execute_with_def try_except_def supervisor_body_def
      split: prod.splits)

lemma snd_decide:
  "snd (decide st) =
     (if step_or ''scrape'' st = ''match'' then snd (decide_after_match st)
      else if step_or ''scrape'' st = ''apply'' then snd (decide_after_apply st)
      else st)"
  by (simp add: decide_def Let_def decide_after_scrape_def decide_after_tailor_def
      decide_after_approval_def decide_after_learn_def)

lemma frame_decide: "router_frame (snd (decide st)) = router_frame st"
  by (simp add: snd_decide decide_after_match_def decide_after_apply_def router_frame_def Let_def)

lemma decisions_decide: "agent_decisions (snd (decide st)) = agent_decisions st"
  by (simp add: snd_decide decide_after_match_def decide_after_apply_def Let_def)

lemma matched_decide:
  "matched_jobs (snd (decide st)) =
     (if step_or ''scrape'' st = ''apply''
      then filter (\<lambda>j. job_get j ''id'' \<noteq> current_job_id st) (matched_jobs st)
      else matched_jobs st)"
  by (simp add: snd_decide decide_after_match_def decide_after_apply_def Let_def)

lemma current_job_decide:
  "current_job (snd (decide st)) =
     (if step_or ''scrape'' st = ''apply'' then None
      else if step_or ''scrape'' st = ''match'' \<and> matched_jobs st \<noteq> []
              \<and> \<not> truthy_job (current_job st)
      then Some (hd (matched_jobs st)) else current_job st)"
  by (simp add: snd_decide decide_after_match_def decide_after_apply_def Let_def)

lemma current_job_id_decide:
  "current_job_id (snd (decide st)) =
     (if step_or ''scrape'' st = ''apply'' then None
      else if step_or ''scrape'' st = ''match'' \<and> matched_jobs st \<noteq> []
              \<and> \<not> truthy_job (current_job st)
      then job_get (hd (matched_jobs st)) ''id'' else current_job_id st)"
  by (simp add: snd_decide decide_after_match_def decide_after_apply_def Let_def)

lemma frame_update:
  "router_frame (add_agent_decision ev (st\<lparr> next_action := a \<rparr>) x y z b) = router_frame st"
  by (simp add: router_frame_def add_agent_decision_def)


text \<open>
  The branch for the step \<open>scrape\<close> answers \<open>stop\<close> when no job was scraped; no
  state the scraper returns reaches it.
\<close>

lemma decide_after_scrape_stops:
  "step_or ''scrape'' st = ''scrape'' \<Longrightarrow> scraped_jobs st = [] \<Longrightarrow>
     next_action (execute ev st) = Some ''stop''"
  by (simp add: execute_unfold decide_def decide_after_scrape_def add_agent_decision_def Let_def)




text \<open>
  Claim C3 at a failing input. With eleven errors recorded, one more than the budget of
  ten, \<open>should_continue_workflow\<close> answers that the workflow must not continue, but
  \<open>execute\<close> never consults it: the decision after the scrape step is \<open>match\<close>, not
  \<open>stop\<close>.
\<close>

theorem router_ignores_error_budget:
  "length (errors error_state) = 11 \<and> \<not> should_continue_workflow error_state \<and>
   current_step error_state = Some ''scrape'' \<and>
   next_action (execute ex_env error_state) = Some ''match''"
  by (simp add: execute_unfold decide_def decide_after_scrape_def add_agent_decision_def Let_def
      step_or_def example_defs should_continue_workflow_def)

text \<open>
  Claim C5 at a failing input. When the approval for \<open>job_a\<close> has expired the decision
  is \<open>match\<close>, but \<open>job_a\<close> stays the current job and stays in \<open>matched_jobs\<close>: it is
  still the current job after the matcher has run again, and the selection made after the
  match step keeps it.
\<close>

theorem expired_gate_keeps_candidate:
  "next_action (execute ex_env (gate_state ''expired'')) = Some ''match'' \<and>
   current_job (execute ex_env (gate_state ''expired'')) = Some job_a \<and>
   matched_jobs (execute ex_env (gate_state ''expired'')) = [job_a, job_b] \<and>
   current_job (matcher_execute ex_env 0.7 (execute ex_env (gate_state ''expired''))) = Some job_a \<and>
   decide_after_match (execute ex_env (gate_state ''expired'')) =
     (''tailor'', execute ex_env (gate_state ''expired''))"
  apply (simp add: execute_unfold decide_defs add_agent_decision_def Let_def
      step_or_def example_defs truthy_job_def)
  apply (simp add: matcher_execute_def try_except_def matcher_body_def calculate_match_score_def
      Let_def add_agent_decision_def update_metrics_def sort_reverse_def score_of_def
      job_get_def split: prod.splits)
  done

text \<open>
  Claim C6 as stated fails: after the apply step \<open>execute\<close> removes the current job
  from \<open>matched_jobs\<close> and clears \<open>current_job\<close> and \<open>current_job_id\<close>; after the
  match step it sets \<open>current_job\<close> and \<open>current_job_id\<close>.
\<close>

theorem router_writes_candidate_fields:
  "matched_jobs apply_state = [job_a, job_b] \<and>
   matched_jobs (execute ex_env apply_state) = [job_b] \<and>
   current_job apply_state = Some job_a \<and>
   current_job (execute ex_env apply_state) = None \<and>
   current_job_id apply_state = Some ''a'' \<and>
   current_job_id (execute ex_env apply_state) = None \<and>
   current_job match_state = None \<and>
   current_job (execute ex_env match_state) = Some job_a \<and>
   current_job_id match_state = None \<and>
   current_job_id (execute ex_env match_state) = Some ''a''"
  by (simp add: execute_unfold decide_defs add_agent_decision_def Let_def
      step_or_def example_defs match_state_def truthy_job_def job_get_def)

text \<open>
  Claim C6, as amended. \<open>execute\<close> is a function of the clock and the state. It records
  its decision in \<open>next_action\<close>, appends one entry to \<open>agent_decisions\<close>, and leaves
  every field other than \<open>current_job\<close>, \<open>current_job_id\<close> and \<open>matched_jobs\<close>
  unchanged. Those three are unchanged too unless the step is \<open>match\<close> or \<open>apply\<close>:
  after \<open>match\<close> the first matched job becomes the current job, and its id the current
  job id, when there is a matched job and none is current; after \<open>apply\<close> the current
  job is removed from \<open>matched_jobs\<close> and \<open>current_job\<close> and \<open>current_job_id\<close> are
  cleared.
\<close>

theorem router_frame_preserved:
  "router_frame (execute ev st) = router_frame st \<and>
   agent_decisions (execute ev st) = agent_decisions st @
     [\<lparr> agent = ''supervisor'', decision = ''next_action='' @ fst (decide st),
        reasoning = ''Based on current_step='' @ step_or ''scrape'' st, success = True,
        timestamp = utcnow ev \<rparr>] \<and>
   next_action (execute ev st) = Some (fst (decide st)) \<and>
   (step_or ''scrape'' st \<noteq> ''apply'' \<longrightarrow> matched_jobs (execute ev st) = matched_jobs st) \<and>
   (step_or ''scrape'' st \<noteq> ''apply'' \<and> step_or ''scrape'' st \<noteq> ''match'' \<longrightarrow>
      current_job (execute ev st) = current_job st \<and>
      current_job_id (execute ev st) = current_job_id st) \<and>
   (step_or ''scrape'' st = ''match'' \<longrightarrow>
      current_job (execute ev st) =
        (if matched_jobs st \<noteq> [] \<and> \<not> truthy_job (current_job st)
         then Some (hd (matched_jobs st)) else current_job st) \<and>
      current_job_id (execute ev st) =
        (if matched_jobs st \<noteq> [] \<and> \<not> truthy_job (current_job st)
         then job_get (hd (matched_jobs st)) ''id'' else current_job_id st)) \<and>
   (step_or ''scrape'' st = ''apply'' \<longrightarrow>
      current_job (execute ev st) = None \<and> current_job_id (execute ev st) = None \<and>
      matched_jobs (execute ev st) =
        filter (\<lambda>j. job_get j ''id'' \<noteq> current_job_id st) (matched_jobs st))"
proof -
  have f: "router_frame (execute ev st) = router_frame st"
    by (simp add: execute_unfold frame_update frame_decide)
  have flds: "agent_decisions (execute ev st) = agent_decisions (snd (decide st)) @
     [\<lparr> agent = ''supervisor'', decision = ''next_action='' @ fst (decide st),
        reasoning = ''Based on current_step='' @ step_or ''scrape'' st, success = True,
        timestamp = utcnow ev \<rparr>]"
    "next_action (execute ev st) = Some (fst (decide st))"
    "matched_jobs (execute ev st) = matched_jobs (snd (decide st))"
    "current_job (execute ev st) = current_job (snd (decide st))"
    "current_job_id (execute ev st) = current_job_id (snd (decide st))"
    by (simp_all add: execute_unfold add_agent_decision_def)
  show ?thesis
    unfolding flds decisions_decide matched_decide current_job_decide current_job_id_decide
    using f by simp
qed

text \<open>
  The three cases at the gate (step \<open>approve\<close>), after \<open>match\<close> and after \<open>apply\<close>.
\<close>

theorem router_frame_preserved_witness:
  "step_or ''scrape'' (gate_state ''pending'') = ''approve'' \<and>
   matched_jobs (execute ex_env (gate_state ''pending'')) = [job_a, job_b] \<and>
   current_job (execute ex_env (gate_state ''pending'')) = Some job_a \<and>
   current_job_id (execute ex_env (gate_state ''pending'')) = Some ''a'' \<and>
   step_or ''scrape'' match_state = ''match'' \<and>
   current_job (execute ex_env match_state) = Some job_a \<and>
   current_job_id (execute ex_env match_state) = Some ''a'' \<and>
   matched_jobs (execute ex_env match_state) = [job_a, job_b] \<and>
   step_or ''scrape'' apply_state = ''apply'' \<and>
   current_job (execute ex_env apply_state) = None \<and>
   current_job_id (execute ex_env apply_state) = None \<and>
   matched_jobs (execute ex_env apply_state) = [job_b]"
proof -
  have s: "step_or ''scrape'' (gate_state ''pending'') = ''approve''"
    "step_or ''scrape'' match_state = ''match''"
    "step_or ''scrape'' apply_state = ''apply''"
    by (simp_all add: step_or_def example_defs match_state_def)
  have v: "matched_jobs (gate_state ''pending'') = [job_a, job_b]"
    "current_job (gate_state ''pending'') = Some job_a"
    "current_job_id (gate_state ''pending'') = Some ''a''"
    "matched_jobs match_state = [job_a, job_b]" "current_job match_state = None"
    "matched_jobs apply_state = [job_a, job_b]" "current_job_id apply_state = Some ''a''"
    by (simp_all add: gate_state_def apply_state_def match_state_def ex_state_def
        create_initial_state_def)
  have ids: "job_get job_a ''id'' = Some ''a''" "job_get job_b ''id'' = Some ''b''"
    by (simp_all add: job_get_def job_a_def job_b_def)
  from router_frame_preserved [of ex_env "gate_state ''pending''", THEN conjunct2]
       router_frame_preserved [of ex_env match_state, THEN conjunct2]
       router_frame_preserved [of ex_env apply_state, THEN conjunct2]
  show ?thesis
    by (simp add: s v ids truthy_job_def)
qed

text \<open>
  Claim C10. If the decision logic raises, \<open>execute\<close> returns the state as it was when
  the exception was raised with one error entry appended and \<open>next_action\<close> set to
  \<open>stop\<close>.
\<close>

theorem supervisor_catches:
  "logic st = Inl (msg, st1) \<Longrightarrow>
     execute_with ev logic st =
       (add_error ev st1 (''Supervisor error: '' @ msg))\<lparr> next_action := Some ''stop'' \<rparr> \<and>
     errors (execute_with ev logic st) = errors st1 @
       [\<lparr> error = ''Supervisor error: '' @ msg, error_timestamp = utcnow ev,
          step = step_or ''unknown'' st1 \<rparr>] \<and>
     next_action (execute_with ev logic st) = Some ''stop''"
  by (simp add: execute_with_def try_except_def supervisor_body_def supervisor_handler_def
      add_error_def step_or_def)

theorem supervisor_catches_witness:
  "raising_logic ex_state = Inl (''len() of unsized object'', ex_state) \<and>
   errors (execute_with ex_env raising_logic ex_state) =
     [\<lparr> error = ''Supervisor error: len() of unsized object'', error_timestamp = 100,
        step = ''scrape'' \<rparr>] \<and>
   next_action (execute_with ex_env raising_logic ex_state) = Some ''stop''"
proof -
  have h: "raising_logic ex_state = Inl (''len() of unsized object'', ex_state)"
    by (simp add: raising_logic_def)
  have e: "errors ex_state = []" "step_or ''unknown'' ex_state = ''scrape''" "utcnow ex_env = 100"
    by (simp_all add: step_or_def ex_state_def create_initial_state_def ex_env_def)
  from supervisor_catches [of raising_logic ex_state "''len() of unsized object''" ex_state ex_env,
      THEN conjunct2]
  show ?thesis
    using h e by simp
qed

section \<open>Scoring and the threshold\<close>

text \<open>
  The lookup of a matched job's score never misses, and the matcher leaves
  \<open>matched_jobs\<close> in descending order of the stored scores.
\<close>

lemma match_loop_scores_present:
  "match_loop ev thr prefs js (matched, scores, reasons) = (m, sc, rs) \<Longrightarrow>
   (\<forall>j \<in> set matched. map_of scores (job_get j ''id'') \<noteq> None) \<Longrightarrow>
   (\<forall>j \<in> set m. map_of sc (job_get j ''id'') \<noteq> None)"
proof (induction js arbitrary: matched scores reasons)
  case Nil
  then show ?case by simp
next
  case (Cons j js)
  obtain score rsn where c: "calculate_match_score ev j prefs = (score, rsn)"
    by (cases "calculate_match_score ev j prefs")
  let ?scores = "AList.update (job_get j ''id'') score scores"
  let ?matched = "if score \<ge> thr then matched @ [j] else matched"
  from Cons.prems(1) c
  have l: "match_loop ev thr prefs js
             (?matched, ?scores, AList.update (job_get j ''id'') rsn reasons) = (m, sc, rs)"
    by (simp add: Let_def)
  have "\<forall>x \<in> set ?matched. map_of ?scores (job_get x ''id'') \<noteq> None"
    using Cons.prems(2) by (auto simp add: update_conv')
  from Cons.IH [OF l this] show ?case .
qed

lemma matched_scores_present:
  "scraped_jobs st \<noteq> [] \<Longrightarrow> j \<in> set (matched_jobs (matcher_execute ev thr st)) \<Longrightarrow>
     map_of (matching_scores (matcher_execute ev thr st)) (job_get j ''id'') \<noteq> None"
proof -
  assume ne: "scraped_jobs st \<noteq> []"
    and j: "j \<in> set (matched_jobs (matcher_execute ev thr st))"
  obtain m sc rs where
    l: "match_loop ev thr (user_preferences st) (scraped_jobs st) ([], [], []) = (m, sc, rs)"
    by (cases "match_loop ev thr (user_preferences st) (scraped_jobs st) ([], [], [])")
  have r: "matched_jobs (matcher_execute ev thr st) = sort_reverse (score_of sc) m"
    "matching_scores (matcher_execute ev thr st) = sc"
    using ne by (simp_all add: matcher_execute_def try_except_def matcher_body_def l Let_def
        add_agent_decision_def update_metrics_def)
  from match_loop_scores_present [OF l] have "\<forall>x \<in> set m. map_of sc (job_get x ''id'') \<noteq> None"
    by simp
  with j show ?thesis
    by (simp add: r sort_reverse_def)
qed

lemma matcher_sorted:
  "scraped_jobs st \<noteq> [] \<Longrightarrow>
     sorted (map (\<lambda>j. - score_of (matching_scores (matcher_execute ev thr st)) j)
               (matched_jobs (matcher_execute ev thr st)))"
proof -
  assume ne: "scraped_jobs st \<noteq> []"
  obtain m sc rs where
    l: "match_loop ev thr (user_preferences st) (scraped_jobs st) ([], [], []) = (m, sc, rs)"
    by (cases "match_loop ev thr (user_preferences st) (scraped_jobs st) ([], [], [])")
  have r: "matched_jobs (matcher_execute ev thr st) = sort_reverse (score_of sc) m"
    "matching_scores (matcher_execute ev thr st) = sc"
    using ne by (simp_all add: matcher_execute_def try_except_def matcher_body_def l Let_def
        add_agent_decision_def update_metrics_def)
  show ?thesis
    by (simp add: r sort_reverse_def)
qed

lemma scenario_loop:
  "match_loop scenario_env 0.7 prefs (map candidate [''c1'', ''c2'', ''c3'', ''c4'', ''c5''])
     ([], [], []) =
   ([candidate ''c1'', candidate ''c3''],
    [(Some ''c1'', 0.9), (Some ''c2'', 0.3), (Some ''c3'', 0.75), (Some ''c4'', 0.6),
     (Some ''c5'', 0.1)],
    [(Some ''c1'', ''strong match''), (Some ''c2'', ''weak match''),
     (Some ''c3'', ''good match''), (Some ''c4'', ''fair match''),
     (Some ''c5'', ''poor match'')])"
  by (simp add: calculate_match_score_def scenario_env_def scenario_scores_def candidate_def
      job_get_def Let_def ex_env_def)

lemma scenario_sort:
  "sort_reverse
     (score_of [(Some ''c1'', 0.9), (Some ''c2'', 0.3), (Some ''c3'', 0.75), (Some ''c4'', 0.6),
                (Some ''c5'', 0.1)])
     [candidate ''c1'', candidate ''c3''] = [candidate ''c1'', candidate ''c3'']"
  by (simp add: sort_reverse_def score_of_def candidate_def job_get_def)

lemma scenario_fields:
  "scraped_jobs scenario_state = map candidate [''c1'', ''c2'', ''c3'', ''c4'', ''c5'']"
  "current_job scenario_state = None"
  by (simp_all add: scenario_state_def ex_state_def create_initial_state_def)

lemma scenario_matcher:
  "matched_jobs (matcher_execute scenario_env 0.7 scenario_state) =
     [candidate ''c1'', candidate ''c3''] \<and>
   matching_scores (matcher_execute scenario_env 0.7 scenario_state) =
     [(Some ''c1'', 0.9), (Some ''c2'', 0.3), (Some ''c3'', 0.75), (Some ''c4'', 0.6),
      (Some ''c5'', 0.1)] \<and>
   current_job (matcher_execute scenario_env 0.7 scenario_state) = None"
  apply (simp only: matcher_execute_def try_except_def matcher_body_def scenario_fields
      scenario_loop prod.case Let_def scenario_sort)
  apply (simp add: add_agent_decision_def update_metrics_def scenario_fields)
  done

lemma sort_reverse_descending: "sorted (map (\<lambda>x. - key x) (sort_reverse key xs))"
  by (simp add: sort_reverse_def)

lemma sort_reverse_stable:
  "filter (\<lambda>x. key x = k) (sort_reverse key xs) = filter (\<lambda>x. key x = k) xs"
  using sort_key_stable [of "\<lambda>x. - key x" "- k" xs] by (simp add: sort_reverse_def)

text \<open>
  Claim C7 at a failing input. After the matcher has scored five jobs with 0.9, 0.3, 0.75,
  0.6 and 0.1 against the threshold 0.70, \<open>matched_jobs\<close> is exactly the 0.9 job followed
  by the 0.75 job. But the matcher records the step \<open>tailor\<close>, so the supervisor takes
  the branch for a finished tailoring, finds no tailored resume and answers \<open>match\<close>:
  no current job is chosen.
\<close>

theorem score_stage_selects_no_candidate:
  "matched_jobs (matcher_execute scenario_env 0.7 scenario_state) =
     [candidate ''c1'', candidate ''c3''] \<and>
   map (score_of (matching_scores (matcher_execute scenario_env 0.7 scenario_state)))
     (scraped_jobs scenario_state) = [0.9, 0.3, 0.75, 0.6, 0.1] \<and>
   current_step (matcher_execute scenario_env 0.7 scenario_state) = Some ''tailor'' \<and>
   next_action (execute scenario_env (matcher_execute scenario_env 0.7 scenario_state)) =
     Some ''match'' \<and>
   current_job (execute scenario_env (matcher_execute scenario_env 0.7 scenario_state)) = None \<and>
   current_job_id (execute scenario_env (matcher_execute scenario_env 0.7 scenario_state)) = None"
proof -
  have sc: "map (score_of [(Some ''c1'', 0.9), (Some ''c2'', 0.3), (Some ''c3'', 0.75),
                           (Some ''c4'', 0.6), (Some ''c5'', 0.1)])
              (map candidate [''c1'', ''c2'', ''c3'', ''c4'', ''c5'']) = [0.9, 0.3, 0.75, 0.6, 0.1]"
    by (simp add: score_of_def candidate_def job_get_def)
  have ne: "scraped_jobs scenario_state \<noteq> []"
    by (simp add: scenario_fields)
  have f: "current_step (matcher_execute scenario_env 0.7 scenario_state) = Some ''tailor''"
    "tailored_resume (matcher_execute scenario_env 0.7 scenario_state) = None"
    "current_job_id (matcher_execute scenario_env 0.7 scenario_state) = None"
    apply (simp_all only: matcher_execute_def try_except_def matcher_body_def scenario_fields
        scenario_loop prod.case Let_def scenario_sort)
    apply (simp_all add: add_agent_decision_def update_metrics_def scenario_state_def
        ex_state_def create_initial_state_def)
    done
  have d: "decide (matcher_execute scenario_env 0.7 scenario_state) =
             (''match'', matcher_execute scenario_env 0.7 scenario_state)"
    by (simp add: decide_def decide_after_tailor_def step_or_def f truthy_str_def)
  show ?thesis
    using scenario_matcher sc
    by (simp add: execute_unfold d f add_agent_decision_def scenario_fields del: list.map)
qed

text \<open>
  From there the matcher and the supervisor alternate until the engine's limit is
  exhausted.
\<close>

lemma score_stage_repeats:
  "map_sum id digest (ainvoke_from scenario_env 0.7 24 Match scenario_state) =
     Inl GraphRecursionError"
  by code_simp

lemma adjust_threshold_bounds:
  "0.5 \<le> thr \<Longrightarrow> thr \<le> 0.9 \<Longrightarrow>
     0.5 \<le> adjust_threshold thr st \<and> adjust_threshold thr st \<le> 0.9"
  by (auto simp add: adjust_threshold_def Let_def max_def min_def)

lemma adjust_threshold_foldl_bounds:
  "0.5 \<le> thr \<Longrightarrow> thr \<le> 0.9 \<Longrightarrow>
     0.5 \<le> foldl adjust_threshold thr sts \<and> foldl adjust_threshold thr sts \<le> 0.9"
proof (induction sts arbitrary: thr)
  case Nil
  then show ?case by simp
next
  case (Cons st sts)
  from adjust_threshold_bounds [OF Cons.prems]
  have "0.5 \<le> adjust_threshold thr st" "adjust_threshold thr st \<le> 0.9" by simp_all
  from Cons.IH [OF this] show ?case by simp
qed

lemma proposal_bounds:
  "adj_matcher (generate_strategy_adjustments ev st ins) = Some m \<Longrightarrow>
     0.5 \<le> new_threshold m \<and> new_threshold m \<le> 0.9"
  by (auto simp add: generate_strategy_adjustments_def Let_def split: if_splits)

text \<open>
  Claim C8. Starting from a threshold within \<open>[0.50, 0.90]\<close>, the threshold is within
  \<open>[0.50, 0.90]\<close> after every one of any number of applications of
  \<open>adjust_threshold\<close>, whatever the states (and so the acceptance rates) it is applied
  to; every threshold the learning stage proposes is within the bounds as well.
\<close>

theorem threshold_stays_in_bounds:
  "(0.5 \<le> thr \<and> thr \<le> 0.9 \<longrightarrow>
      (\<forall>n. 0.5 \<le> foldl adjust_threshold thr (take n sts) \<and>
           foldl adjust_threshold thr (take n sts) \<le> 0.9)) \<and>
   (\<forall>m. adj_matcher (generate_strategy_adjustments ev st ins) = Some m \<longrightarrow>
      0.5 \<le> new_threshold m \<and> new_threshold m \<le> 0.9)"
  using adjust_threshold_foldl_bounds proposal_bounds by blast

lemma counted_fields:
  "matched_jobs (counted_state a n) = replicate a job_a"
  "scraped_jobs (counted_state a n) = replicate n job_a"
  "errors (counted_state a n) = []"
  by (simp_all add: counted_state_def ex_state_def create_initial_state_def)

lemma counted_rate:
  "match_rate (analyze_workflow ev (counted_state a n)) =
     (if n > 0 then real a / real n else 0)"
  by (simp add: analyze_workflow_def counted_fields Let_def)

text \<open>
  Six applications with nothing matched, from 0.70: the threshold reaches the floor 0.50
  and stays there.
\<close>

theorem threshold_stays_in_bounds_witness:
  "(0.5::real) \<le> 0.7 \<and> (0.7::real) \<le> 0.9 \<and>
   foldl adjust_threshold 0.7 (take 6 (replicate 6 (counted_state 0 10))) = 0.5 \<and>
   0.5 \<le> foldl adjust_threshold 0.7 (take 6 (replicate 6 (counted_state 0 10))) \<and>
   foldl adjust_threshold 0.7 (take 6 (replicate 6 (counted_state 0 10))) \<le> 0.9 \<and>
   map_option new_threshold
     (adj_matcher (generate_strategy_adjustments ex_env (counted_state 0 10)
        (analyze_workflow ex_env (counted_state 0 10)))) = Some 0.6"
proof -
  have a: "adjust_threshold t (counted_state 0 10) = max 0.5 (t - 0.05)" for t
    by (simp add: adjust_threshold_def counted_fields)
  have six: "replicate 6 x = [x, x, x, x, x, x]" for x :: state
    by (simp add: numeral_eq_Suc)
  have f: "foldl adjust_threshold 0.7 (take 6 (replicate 6 (counted_state 0 10))) = 0.5"
    by (simp add: six a)
  from threshold_stays_in_bounds [of "0.7" "replicate 6 (counted_state 0 10)" ex_env
      "counted_state 0 10" "analyze_workflow ex_env (counted_state 0 10)"]
  show ?thesis
    using f by (simp add: generate_strategy_adjustments_def counted_rate)
qed

text \<open>
  Claim C2, as amended. With the sum and the difference taken exactly,
  \<open>adjust_threshold\<close> lowers the threshold by 0.05, not below 0.50, when no job was
  matched; raises it by 0.05, not above 0.90, when more than 20 jobs were matched; and
  leaves it unchanged otherwise. From 0.70 with 0 of 10 jobs matched the new threshold
  is 0.65 to within 1e-15 (the source's doubles give 0.6499999999999999). The learning
  stage proposes the fixed threshold 0.60 for a match rate below 0.10 and the fixed
  threshold 0.75 for a match rate above 0.80, whatever the current threshold, and
  proposes none in between.
\<close>

theorem adjust_threshold_rule:
  "(matched_jobs st = [] \<longrightarrow> adjust_threshold thr st = max 0.5 (thr - 0.05)) \<and>
   (20 < length (matched_jobs st) \<longrightarrow> adjust_threshold thr st = min 0.9 (thr + 0.05)) \<and>
   (matched_jobs st \<noteq> [] \<and> length (matched_jobs st) \<le> 20 \<longrightarrow> adjust_threshold thr st = thr) \<and>
   \<bar>adjust_threshold 0.7 (counted_state 0 10) - 0.65\<bar> \<le> 1 / 10 ^ 15 \<and>
   (match_rate ins < 0.1 \<longrightarrow>
      map_option new_threshold (adj_matcher (generate_strategy_adjustments ev st ins)) = Some 0.6) \<and>
   (match_rate ins > 0.8 \<longrightarrow>
      map_option new_threshold (adj_matcher (generate_strategy_adjustments ev st ins)) = Some 0.75) \<and>
   (0.1 \<le> match_rate ins \<and> match_rate ins \<le> 0.8 \<longrightarrow>
      adj_matcher (generate_strategy_adjustments ev st ins) = None)"
  by (auto simp add: adjust_threshold_def generate_strategy_adjustments_def counted_fields Let_def)

text \<open>
  Instances in which the source's doubles give the same values: from 0.75 down to 0.7,
  from 0.7 up to 0.75, and the two clamps.
\<close>

theorem adjust_threshold_rule_witness:
  "matched_jobs (counted_state 0 10) = [] \<and>
   adjust_threshold 0.75 (counted_state 0 10) = 0.7 \<and>
   adjust_threshold 0.5 (counted_state 0 10) = 0.5 \<and>
   \<bar>adjust_threshold 0.7 (counted_state 0 10) - 0.65\<bar> \<le> 1 / 10 ^ 15 \<and>
   match_rate (analyze_workflow ex_env (counted_state 0 10)) < 0.1 \<and>
   map_option new_threshold
     (adj_matcher (generate_strategy_adjustments ex_env (counted_state 0 10)
        (analyze_workflow ex_env (counted_state 0 10)))) = Some 0.6 \<and>
   20 < length (matched_jobs (counted_state 21 21)) \<and>
   adjust_threshold 0.7 (counted_state 21 21) = 0.75 \<and>
   adjust_threshold 0.9 (counted_state 21 21) = 0.9 \<and>
   match_rate (analyze_workflow ex_env (counted_state 21 21)) > 0.8 \<and>
   map_option new_threshold
     (adj_matcher (generate_strategy_adjustments ex_env (counted_state 21 21)
        (analyze_workflow ex_env (counted_state 21 21)))) = Some 0.75 \<and>
   matched_jobs (counted_state 5 10) \<noteq> [] \<and> length (matched_jobs (counted_state 5 10)) \<le> 20 \<and>
   adjust_threshold 0.7 (counted_state 5 10) = 0.7 \<and>
   0.1 \<le> match_rate (analyze_workflow ex_env (counted_state 5 10)) \<and>
   match_rate (analyze_workflow ex_env (counted_state 5 10)) \<le> 0.8 \<and>
   adj_matcher (generate_strategy_adjustments ex_env (counted_state 5 10)
        (analyze_workflow ex_env (counted_state 5 10))) = None"
  using adjust_threshold_rule [of "counted_state 0 10" "0.75" "analyze_workflow ex_env (counted_state 0 10)" ex_env]
    adjust_threshold_rule [of "counted_state 0 10" "0.5" "analyze_workflow ex_env (counted_state 0 10)" ex_env]
    adjust_threshold_rule [of "counted_state 21 21" "0.7" "analyze_workflow ex_env (counted_state 21 21)" ex_env]
    adjust_threshold_rule [of "counted_state 21 21" "0.9" "analyze_workflow ex_env (counted_state 21 21)" ex_env]
    adjust_threshold_rule [of "counted_state 5 10" "0.7" "analyze_workflow ex_env (counted_state 5 10)" ex_env]
  by (simp add: counted_fields counted_rate)

text \<open>
  Claim C2 as stated fails: with 1 of 20 jobs matched the acceptance rate is 0.05, below
  0.10, and \<open>adjust_threshold\<close> leaves 0.70 unchanged; with 0 of 10 matched the
  learning stage proposes 0.60, not 0.65.
\<close>

theorem low_rate_not_lowered_by_005:
  "match_rate (analyze_workflow ex_env (counted_state 1 20)) = 0.05 \<and>
   adjust_threshold 0.7 (counted_state 1 20) = 0.7 \<and>
   match_rate (analyze_workflow ex_env (counted_state 0 10)) = 0 \<and>
   map_option new_threshold
     (adj_matcher (generate_strategy_adjustments ex_env (counted_state 0 10)
        (analyze_workflow ex_env (counted_state 0 10)))) = Some 0.6"
  by (simp add: adjust_threshold_def generate_strategy_adjustments_def counted_fields
      counted_rate)

section \<open>Failures inside a stage\<close>

lemma matcher_errors: "errors (matcher_execute ev thr st) = errors st"
proof (cases "scraped_jobs st = []")
  case True
  then show ?thesis
    by (simp add: matcher_execute_def try_except_def matcher_body_def)
next
  case False
  obtain m sc rs where
    l: "match_loop ev thr (user_preferences st) (scraped_jobs st) ([], [], []) = (m, sc, rs)"
    by (cases "match_loop ev thr (user_preferences st) (scraped_jobs st) ([], [], [])")
  show ?thesis
    using False
    by (simp add: matcher_execute_def try_except_def matcher_body_def l Let_def
        add_agent_decision_def update_metrics_def)
qed

lemma handler_errors:
  "errors (scraper_handler ev msg st) = errors st @
     [\<lparr> error = ''Scraper error: '' @ msg, error_timestamp = utcnow ev,
        step = step_or ''unknown'' st \<rparr>]"
  "errors (matcher_handler ev msg st) = errors st @
     [\<lparr> error = ''Matcher error: '' @ msg, error_timestamp = utcnow ev,
        step = step_or ''unknown'' st \<rparr>]"
  "errors (tailor_handler ev msg st) = errors st @
     [\<lparr> error = ''Resume tailor error: '' @ msg, error_timestamp = utcnow ev,
        step = step_or ''unknown'' st \<rparr>]"
  "errors (learning_handler ev msg st) = errors st @
     [\<lparr> error = ''Learning error: '' @ msg, error_timestamp = utcnow ev,
        step = step_or ''unknown'' st \<rparr>]"
  by (simp_all add: scraper_handler_def matcher_handler_def tailor_handler_def
      learning_handler_def add_error_def)

lemma handler_frame:
  "(scraper_handler ev msg st)\<lparr> errors := errors st, current_step := current_step st \<rparr> = st"
  "(matcher_handler ev msg st)\<lparr> errors := errors st, current_step := current_step st \<rparr> = st"
  "(tailor_handler ev msg st)\<lparr> errors := errors st, current_step := current_step st \<rparr> = st"
  "(learning_handler ev msg st)\<lparr> errors := errors st, current_step := current_step st \<rparr> = st"
  by (simp_all add: scraper_handler_def matcher_handler_def tailor_handler_def
      learning_handler_def add_error_def)

lemma learning_key_error:
  "learning_insights st = None \<Longrightarrow>
     learning_execute ev st =
       learning_handler ev (key_error_text ''learning_insights'') st"
  by (simp add: learning_execute_def try_except_def learning_body_def Let_def)

text \<open>
  Claim C9, as amended. When a failure reaches the exception handler of a stage (scraper,
  matcher, resume tailor, learning), exactly one entry is appended to \<open>errors\<close> and
  the state is returned, otherwise as it was when the exception was raised but for
  \<open>current_step\<close>; the learning stage on a state without \<open>learning_insights\<close> is such
  a failure. A failure of the language model while scoring a job never reaches the
  matcher's handler: the matcher appends no entry to \<open>errors\<close>. In both cases the stage
  returns a state.
\<close>

theorem stage_failure_recorded:
  "(body st = Inl (msg, st1) \<longrightarrow>
      errors (try_except body (scraper_handler ev) st) = errors st1 @
        [\<lparr> error = ''Scraper error: '' @ msg, error_timestamp = utcnow ev,
           step = step_or ''unknown'' st1 \<rparr>] \<and>
      errors (try_except body (matcher_handler ev) st) = errors st1 @
        [\<lparr> error = ''Matcher error: '' @ msg, error_timestamp = utcnow ev,
           step = step_or ''unknown'' st1 \<rparr>] \<and>
      errors (try_except body (tailor_handler ev) st) = errors st1 @
        [\<lparr> error = ''Resume tailor error: '' @ msg, error_timestamp = utcnow ev,
           step = step_or ''unknown'' st1 \<rparr>] \<and>
      errors (try_except body (learning_handler ev) st) = errors st1 @
        [\<lparr> error = ''Learning error: '' @ msg, error_timestamp = utcnow ev,
           step = step_or ''unknown'' st1 \<rparr>] \<and>
      (try_except body (scraper_handler ev) st)
         \<lparr> errors := errors st1, current_step := current_step st1 \<rparr> = st1 \<and>
      (try_except body (matcher_handler ev) st)
         \<lparr> errors := errors st1, current_step := current_step st1 \<rparr> = st1 \<and>
      (try_except body (tailor_handler ev) st)
         \<lparr> errors := errors st1, current_step := current_step st1 \<rparr> = st1 \<and>
      (try_except body (learning_handler ev) st)
         \<lparr> errors := errors st1, current_step := current_step st1 \<rparr> = st1) \<and>
   (learning_insights st = None \<longrightarrow>
      errors (learning_execute ev st) = errors st @
        [\<lparr> error = ''Learning error: '' @ key_error_text ''learning_insights'',
           error_timestamp = utcnow ev, step = step_or ''unknown'' st \<rparr>] \<and>
      current_step (learning_execute ev st) = Some ''complete'') \<and>
   errors (matcher_execute ev thr st) = errors st"
proof -
  have a: "body st = Inl (msg, st1) \<Longrightarrow> try_except body h st = h msg st1" for h
    by (simp add: try_except_def)
  have b: "current_step (learning_handler ev m st) = Some ''complete''" for m
    by (simp add: learning_handler_def)
  show ?thesis
    by (simp add: a handler_errors handler_frame learning_key_error b matcher_errors)
qed

theorem stage_failure_recorded_witness:
  "raising_body ex_state = Inl (''connection reset'', ex_state) \<and>
   errors (try_except raising_body (scraper_handler ex_env) ex_state) =
     [\<lparr> error = ''Scraper error: connection reset'', error_timestamp = 100,
        step = ''scrape'' \<rparr>] \<and>
   errors (try_except raising_body (matcher_handler ex_env) ex_state) =
     [\<lparr> error = ''Matcher error: connection reset'', error_timestamp = 100,
        step = ''scrape'' \<rparr>] \<and>
   learning_insights no_insights_state = None \<and>
   errors (learning_execute ex_env no_insights_state) =
     [\<lparr> error = ''Learning error: '' @ key_error_text ''learning_insights'',
        error_timestamp = 100, step = ''learn'' \<rparr>] \<and>
   current_step (learning_execute ex_env no_insights_state) = Some ''complete''"
proof -
  have h: "raising_body ex_state = Inl (''connection reset'', ex_state)"
    by (simp add: raising_body_def)
  have e: "errors ex_state = []" "step_or ''unknown'' ex_state = ''scrape''"
    "utcnow ex_env = 100" "learning_insights no_insights_state = None"
    "errors no_insights_state = []" "step_or ''unknown'' no_insights_state = ''learn''"
    by (simp_all add: step_or_def ex_state_def create_initial_state_def ex_env_def
        no_insights_state_def)
  from stage_failure_recorded [of raising_body ex_state "''connection reset''" ex_state ex_env 0]
    stage_failure_recorded [of raising_body no_insights_state "''x''" ex_state ex_env 0,
      THEN conjunct2]
  show ?thesis
    using h e by simp
qed

text \<open>
  Claim C9 as stated fails: the language model fails while the matcher scores a job, the
  job gets the score 0.0, and no entry is appended to \<open>errors\<close>.
\<close>

theorem llm_failure_leaves_no_error:
  "score_llm ex_env job_a (user_preferences one_job_state) = Inl ''no API key'' \<and>
   errors one_job_state = [] \<and>
   errors (matcher_execute ex_env 0.7 one_job_state) = [] \<and>
   matching_scores (matcher_execute ex_env 0.7 one_job_state) = [(Some ''a'', 0)] \<and>
   matching_reasoning (matcher_execute ex_env 0.7 one_job_state) =
     [(Some ''a'', ''Error: no API key'')] \<and>
   current_step (matcher_execute ex_env 0.7 one_job_state) = Some ''tailor''"
  by (simp add: matcher_execute_def try_except_def matcher_body_def Let_def
      add_agent_decision_def update_metrics_def calculate_match_score_def one_job_state_def
      ex_state_def create_initial_state_def ex_env_def job_a_def job_get_def
      sort_reverse_def)

section \<open>Resuming\<close>

text \<open>
  Claim C4 at a failing input. Resuming the run that waits at the gate with approval
  still pending does not re-enter at the gate: the scraper, the supervisor, the resume
  tailor and the supervisor run again before the run ends with \<open>wait\<close>. The scraped
  jobs and the tailored resume are replaced and four decisions are logged; resuming once
  more logs four more.
\<close>

theorem resume_reruns_pipeline:
  "digest (gate_state ''pending'') =
     (Some ''wait'', Some ''approve'', [], 2, Some ''tailored text'') \<and>
   map_sum id digest (resume_workflow ex_env 0.7 25 (gate_state ''pending'')) =
     Inr (Some ''wait'', Some ''approve'',
          [''scraper'', ''supervisor'', ''resume_tailor'', ''supervisor''], 5,
          Some ''resume text'') \<and>
   map_sum id digest (resume_twice ex_env 0.7 25 (gate_state ''pending'')) =
     Inr (Some ''wait'', Some ''approve'',
          [''scraper'', ''supervisor'', ''resume_tailor'', ''supervisor'',
           ''scraper'', ''supervisor'', ''resume_tailor'', ''supervisor''], 5,
          Some ''resume text'')"
  by code_simp

text \<open>These four node executions need a recursion limit of five.\<close>

lemma resume_recursion_limit:
  "resume_workflow ex_env 0.7 4 (gate_state ''pending'') = Inl GraphRecursionError"
  "map_sum id digest (resume_workflow ex_env 0.7 5 (gate_state ''pending'')) =
     map_sum id digest (resume_workflow ex_env 0.7 25 (gate_state ''pending''))"
  by code_simp+

text \<open>
  The supervisor's own evaluation of the gate is repeatable: at step \<open>approve\<close> with the
  approval still pending it decides \<open>wait\<close>, and evaluating the resulting state again
  decides \<open>wait\<close> again, changing nothing but appending one more entry to
  \<open>agent_decisions\<close>.
\<close>

lemma gate_evaluation_repeatable:
  "current_step st = Some ''approve'' \<Longrightarrow> approval_status st = Some ''pending'' \<Longrightarrow>
      next_action (execute ev st) = Some ''wait'' \<and>
      execute ev (execute ev st) =
        (execute ev st)\<lparr> agent_decisions := agent_decisions (execute ev st) @
           [\<lparr> agent = ''supervisor'', decision = ''next_action=wait'',
              reasoning = ''Based on current_step=approve'', success = True,
              timestamp = utcnow ev \<rparr>] \<rparr>"
proof -
  assume h: "current_step st = Some ''approve''" "approval_status st = Some ''pending''"
  have d: "decide s = (''wait'', s)"
    if "current_step s = Some ''approve''" "approval_status s = Some ''pending''" for s
    using that by (simp add: decide_def decide_after_approval_def step_or_def)
  have e: "execute ev s = add_agent_decision ev (s\<lparr> next_action := Some ''wait'' \<rparr>)
             ''supervisor'' ''next_action=wait'' ''Based on current_step=approve'' True"
    if "current_step s = Some ''approve''" "approval_status s = Some ''pending''" for s
    using that by (simp add: execute_unfold d step_or_def)
  have k: "current_step (add_agent_decision ev (s\<lparr> next_action := a \<rparr>) x y z b) = current_step s"
    "approval_status (add_agent_decision ev (s\<lparr> next_action := a \<rparr>) x y z b) = approval_status s"
    for s a x y z b
    by (simp_all add: add_agent_decision_def)
  have e1: "execute ev st = add_agent_decision ev (st\<lparr> next_action := Some ''wait'' \<rparr>)
             ''supervisor'' ''next_action=wait'' ''Based on current_step=approve'' True"
    using h by (simp add: e)
  have e2: "execute ev (execute ev st) =
        add_agent_decision ev ((execute ev st)\<lparr> next_action := Some ''wait'' \<rparr>)
             ''supervisor'' ''next_action=wait'' ''Based on current_step=approve'' True"
    using h by (simp add: e e1 k)
  have n: "next_action (execute ev st) = Some ''wait''"
    by (simp add: e1 add_agent_decision_def)
  have r: "execute ev (execute ev st) =
        (execute ev st)\<lparr> agent_decisions := agent_decisions (execute ev st) @
           [\<lparr> agent = ''supervisor'', decision = ''next_action=wait'',
              reasoning = ''Based on current_step=approve'', success = True,
              timestamp = utcnow ev \<rparr>] \<rparr>"
    unfolding e2 unfolding e1 by (simp add: add_agent_decision_def)
  from n r show ?thesis by simp
qed

end
